theory Spec2Isabelle
  imports Complex_Main "HOL-Library.Sublist" "HOL-Library.Log_Nat"
begin

section \<open>CineSwap Pro: the generation adapter and its orchestration\<close>

text \<open>
  A shallow embedding of \<^verbatim>\<open>services/geminiService.ts\<close> (the aspect-ratio selector
  \<^verbatim>\<open>getClosestAspectRatio\<close> and the adapter \<^verbatim>\<open>generateSwappedPoster\<close>), of the handler
  \<^verbatim>\<open>handleProcess\<close> of \<^verbatim>\<open>App.tsx\<close> and of the records of \<^verbatim>\<open>types.ts\<close>.

  Conventions of the embedding.
  \<^item> A JavaScript string is a \<^typ>\<open>string\<close>; text outside ASCII is written as its UTF-8
    bytes. The program only concatenates strings, compares them for equality, tests them
    for emptiness and searches them for an ASCII needle, and all four agree on the two
    representations.
  \<^item> An optional field \<^verbatim>\<open>f?: T\<close> is a \<^typ>\<open>'a option\<close>, \<^const>\<open>None\<close> standing for
    \<^verbatim>\<open>undefined\<close> (and \<^verbatim>\<open>null\<close>).
  \<^item> A JavaScript number is an IEEE 754 double: a \<open>js_number\<close> is a finite value
    (a rational; \<open>Num 0\<close> is the positive zero), the negative zero, one of the two
    infinities, or NaN. Division and subtraction compute the exact rational result and
    round it to the nearest double, ties to the even significand, with overflow to an
    infinity and gradual underflow; the special values follow the standard's tables.
  \<^item> A thrown \<^verbatim>\<open>Error\<close> is a value \<open>Error m\<close>; a function that may throw returns a sum
    whose left injection is what it throws; a promise is the sum it settles to.
\<close>

subsection \<open>JavaScript numbers\<close>

datatype js_number = Num rat | NegZero | PosInf | NegInf | NaN

text \<open>The powers of two, with any integer exponent.\<close>

definition pow2 :: "int \<Rightarrow> rat" where
  "pow2 k = 2 powi k"

text \<open>
  The binade of a rational \<open>x\<close> other than \<open>0\<close>: the exponent \<open>e\<close> with
  \<open>pow2 e \<le> \<bar>x\<bar>\<close> and \<open>\<bar>x\<bar> < pow2 (e + 1)\<close> (lemma \<open>binade_bounds\<close> below). The
  difference of the bit lengths of numerator and denominator is this exponent or one
  more.
\<close>

definition binade :: "rat \<Rightarrow> int" where
  "binade x = (let k = bitlen (fst (quotient_of \<bar>x\<bar>)) - bitlen (snd (quotient_of \<bar>x\<bar>))
               in if pow2 k \<le> \<bar>x\<bar> then k else k - 1)"

text \<open>The integer nearest to a rational; of two that are equally near, the even one.\<close>

definition nearest_even :: "rat \<Rightarrow> int" where
  "nearest_even y = (let n = \<lfloor>y\<rfloor>; f = y - of_int n
      in if f < 1 / 2 then n else if 1 / 2 < f then n + 1 else if even n then n else n + 1)"

text \<open>
  Rounding of an exact result to a double (binary64, round to nearest, ties to even).
  With 53 bits of significand the doubles in the binade \<open>e\<close> are the multiples of
  \<open>pow2 (e - 52)\<close>; below \<open>pow2 (- 1022)\<close> they are the multiples of \<open>pow2 (- 1074)\<close>
  (the subnormal numbers). A result that rounds to \<open>pow2 1024\<close> or beyond overflows to an
  infinity, and a negative result that rounds to zero is the negative zero.
\<close>

definition round64 :: "rat \<Rightarrow> js_number" where
  "round64 x =
     (if x = 0 then Num 0
      else let e = max (binade x) (- 1022);
               q = pow2 (e - 52);
               r = of_int (nearest_even (x / q)) * q
           in if pow2 1024 \<le> \<bar>r\<bar> then (if 0 < x then PosInf else NegInf)
              else if r = 0 \<and> x < 0 then NegZero
              else Num r)"

definition is_zero :: "js_number \<Rightarrow> bool" where
  "is_zero x = (x = Num 0 \<or> x = NegZero)"

definition is_infinite :: "js_number \<Rightarrow> bool" where
  "is_infinite x = (x = PosInf \<or> x = NegInf)"

fun sign_bit :: "js_number \<Rightarrow> bool" where
  "sign_bit (Num r) = (r < 0)"
| "sign_bit NegZero = True"
| "sign_bit PosInf = False"
| "sign_bit NegInf = True"
| "sign_bit NaN = False"

text \<open>The value of a finite number; both zeros have the value \<open>0\<close>.\<close>

fun magnitude :: "js_number \<Rightarrow> rat" where
  "magnitude (Num r) = r"
| "magnitude _ = 0"

text \<open>
  \<^verbatim>\<open>x / y\<close>. The sign of the result is the exclusive or of the signs; an infinity by an
  infinity and a zero by a zero are NaN.
\<close>

definition js_div :: "js_number \<Rightarrow> js_number \<Rightarrow> js_number" where
  "js_div x y =
     (let negative = (sign_bit x \<noteq> sign_bit y) in
      if x = NaN \<or> y = NaN then NaN
      else if is_infinite x then
        (if is_infinite y then NaN else if negative then NegInf else PosInf)
      else if is_infinite y then (if negative then NegZero else Num 0)
      else if is_zero y then
        (if is_zero x then NaN else if negative then NegInf else PosInf)
      else if is_zero x then (if negative then NegZero else Num 0)
      else round64 (magnitude x / magnitude y))"

text \<open>
  \<^verbatim>\<open>x - y\<close>. An infinity minus itself is NaN; an exact difference of zero is the positive
  zero, except that the negative zero minus the positive zero is the negative zero.
\<close>

definition js_sub :: "js_number \<Rightarrow> js_number \<Rightarrow> js_number" where
  "js_sub x y =
     (if x = NaN \<or> y = NaN then NaN
      else if is_infinite x then (if y = x then NaN else x)
      else if y = PosInf then NegInf
      else if y = NegInf then PosInf
      else if magnitude x - magnitude y = 0 then
        (if x = NegZero \<and> y = Num 0 then NegZero else Num 0)
      else round64 (magnitude x - magnitude y))"

text \<open>\<^verbatim>\<open>Math.abs(x)\<close>.\<close>

fun js_abs :: "js_number \<Rightarrow> js_number" where
  "js_abs (Num r) = Num \<bar>r\<bar>"
| "js_abs NegZero = Num 0"
| "js_abs PosInf = PosInf"
| "js_abs NegInf = PosInf"
| "js_abs NaN = NaN"

text \<open>\<^verbatim>\<open>x < y\<close>. NaN is less than nothing and nothing is less than NaN; the zeros are equal.\<close>

fun js_lt :: "js_number \<Rightarrow> js_number \<Rightarrow> bool" where
  "js_lt NaN _ = False"
| "js_lt _ NaN = False"
| "js_lt PosInf _ = False"
| "js_lt _ NegInf = False"
| "js_lt NegInf _ = True"
| "js_lt _ PosInf = True"
| "js_lt x y = (magnitude x < magnitude y)"

subsection \<open>Other JavaScript values\<close>

datatype js_error = Error (message: "string option")

text \<open>\<^verbatim>\<open>!x\<close> of an optional number: \<^verbatim>\<open>undefined\<close>, the zeros and NaN are falsy.\<close>

definition falsy_number :: "js_number option \<Rightarrow> bool" where
  "falsy_number x = (case x of None \<Rightarrow> True | Some v \<Rightarrow> is_zero v \<or> v = NaN)"

text \<open>Truthiness of an optional string: \<^verbatim>\<open>undefined\<close> and the empty string are falsy.\<close>

definition truthy_string :: "string option \<Rightarrow> bool" where
  "truthy_string x = (case x of None \<Rightarrow> False | Some s \<Rightarrow> s \<noteq> [])"

text \<open>\<^verbatim>\<open>haystack.includes(needle)\<close>: the needle occurs at some position of the haystack.\<close>

fun js_includes :: "string \<Rightarrow> string \<Rightarrow> bool" where
  "js_includes [] needle = (needle = [])"
| "js_includes (c # cs) needle = (prefix needle (c # cs) \<or> js_includes cs needle)"

text \<open>
  \<^verbatim>\<open>xs.reduce(f)\<close> with no initial value: the first element starts the accumulator and
  the others are folded in from left to right; on an empty array it throws a TypeError,
  which is \<^const>\<open>None\<close> here.
\<close>

fun reduce :: "('a \<Rightarrow> 'a \<Rightarrow> 'a) \<Rightarrow> 'a list \<Rightarrow> 'a option" where
  "reduce f [] = None"
| "reduce f (x # xs) = Some (foldl f x xs)"

subsection \<open>\<^verbatim>\<open>getClosestAspectRatio\<close>\<close>

text \<open>
  The array \<^verbatim>\<open>supported\<close>; an entry \<^verbatim>\<open>{ name, value }\<close> is the pair \<open>(name, value)\<close>, and
  a value such as \<^verbatim>\<open>9 / 16\<close> is the division of two doubles.
\<close>

definition supported :: "(string \<times> js_number) list" where
  "supported =
    [(''9:16'', js_div (Num 9) (Num 16)),
     (''3:4'', js_div (Num 3) (Num 4)),
     (''1:1'', Num 1),
     (''4:3'', js_div (Num 4) (Num 3)),
     (''16:9'', js_div (Num 16) (Num 9))]"

text \<open>\<^verbatim>\<open>Math.abs(c.value - ratio)\<close>.\<close>

definition distance :: "js_number \<Rightarrow> string \<times> js_number \<Rightarrow> js_number" where
  "distance ratio c = js_abs (js_sub (snd c) ratio)"

text \<open>The callback of the \<^verbatim>\<open>reduce\<close>.\<close>

definition closer ::
  "js_number \<Rightarrow> string \<times> js_number \<Rightarrow> string \<times> js_number \<Rightarrow> string \<times> js_number" where
  "closer ratio prev cur = (if js_lt (distance ratio cur) (distance ratio prev) then cur else prev)"

text \<open>
  The array literal is not empty, so the \<^verbatim>\<open>reduce\<close> does not throw
  (lemma \<open>reduce_supported\<close> below) and \<^const>\<open>the\<close> reads its result.
\<close>

definition getClosestAspectRatio :: "js_number option \<Rightarrow> js_number option \<Rightarrow> string" where
  "getClosestAspectRatio width height =
     (if falsy_number width \<or> falsy_number height then ''3:4''
      else let ratio = js_div (the width) (the height);
               closest = the (reduce (closer ratio) supported)
           in fst closest)"

text \<open>
  The selector in the words of the specification, to compare with: the ratio
  \<open>width / height\<close> is the real quotient, the candidates are the exact quotients, and of
  the candidates whose absolute difference to the ratio is least the first in the
  listed order is chosen.
\<close>

definition spec_candidates :: "(string \<times> rat) list" where
  "spec_candidates =
     [(''9:16'', 9 / 16), (''3:4'', 3 / 4), (''1:1'', 1), (''4:3'', 4 / 3), (''16:9'', 16 / 9)]"

definition spec_selector :: "rat \<Rightarrow> rat \<Rightarrow> string" where
  "spec_selector w h = fst (arg_min_list (\<lambda>c. \<bar>snd c - w / h\<bar>) spec_candidates)"

subsection \<open>The record \<^verbatim>\<open>UploadedImage\<close> of \<^verbatim>\<open>types.ts\<close>\<close>

text \<open>The field \<^verbatim>\<open>id\<close> is named \<open>imageId\<close>, since \<open>id\<close> is the identity function of HOL.\<close>

record UploadedImage =
  imageId :: string
  url :: string
  base64 :: string
  mimeType :: string
  name :: string
  width :: "js_number option"
  height :: "js_number option"

subsection \<open>The part of the SDK's interface that the adapter uses\<close>

text \<open>
  The types of \<^verbatim>\<open>@google/genai\<close> are not part of the repository; they are given here as
  far as the adapter builds or reads them. A part carries an inline binary payload, a
  text, both or neither; an inline payload has its \<^verbatim>\<open>data\<close>, as the adapter takes for
  granted when it reads them. The field \<^verbatim>\<open>text\<close> of a part is named \<open>partText\<close>.
\<close>

record Blob =
  data :: string
  blobMimeType :: string

record Part =
  inlineData :: "Blob option"
  partText :: "string option"

record Content =
  parts :: "Part list option"

record Candidate =
  content :: "Content option"
  finishReason :: "string option"

record GenerateContentResponse =
  candidates :: "Candidate list option"

record ImageConfig =
  aspectRatio :: string
  imageSize :: string

text \<open>
  The argument of \<^verbatim>\<open>generateContent\<close>: \<open>contents\<close> is the list under
  \<^verbatim>\<open>contents.parts\<close> and \<open>imageConfig\<close> the object under \<^verbatim>\<open>config.imageConfig\<close>.
\<close>

record GenerateContentParameters =
  model :: string
  contents :: "Part list"
  imageConfig :: ImageConfig

text \<open>What \<^verbatim>\<open>await ai.models.generateContent(...)\<close> yields: a response, or a thrown error.\<close>

datatype call_result = Fulfilled GenerateContentResponse | Rejected js_error

type_synonym client = "GenerateContentParameters \<Rightarrow> call_result"

subsection \<open>The texts of the program\<close>

text \<open>The instruction text: the template literal of the source after \<^verbatim>\<open>trim()\<close>, line by line.\<close>

fun unlines :: "string list \<Rightarrow> string" where
  "unlines [] = []"
| "unlines [l] = l"
| "unlines (l # ls) = l @ [CHR 0x0A] @ unlines ls"

definition prompt_lines :: "string list" where
  "prompt_lines =
    [''TASK: HIGH-END CINEMATIC CHARACTER COMPOSITE AND CREATIVE IMAGE EDITING.'',
     ''    '',
     ''    CONTEXT:'',
     ''    This is a creative personal project. I am providing a Master Poster (Image 1) and a series of Source Character Portraits (Image 2 onwards). '',
     ''    The goal is to professionally integrate the Source Character Portraits into the Master Poster, replacing the main characters shown.'',
     ''    '',
     ''    SPECIFIC INSTRUCTIONS:'',
     ''    1. SEQUENTIAL MAPPING: '',
     ''       - Replace the characters in the poster in the EXACT sequence the Source Portraits are provided.'',
     ''       - Source 1 replaces the first character (usually the most prominent or leftmost).'',
     ''       - Source 2 replaces the second character, and so on.'',
     ''    '',
     ''    2. PERSPECTIVE & ANATOMY:'',
     ''       - Match the exact 3D orientation, head tilt, and eye gaze of the original character in the poster. '',
     ''       - The composite must feel anatomically correct and consistent with the poster's original perspective.'',
     ''    '',
     ''    3. CINEMATIC LIGHTING & TEXTURE:'',
     ''       - Replicate the complex lighting of the scene on the new characters (rim lights, key lights, shadows).'',
     ''       - Match the original color temperature, skin tone grading, and photographic film grain of the original poster perfectly.'',
     ''    '',
     ''    4. PRESERVATION:'',
     ''       - DO NOT modify the background, props, costumes (unless needed for seamless integration), or any graphic design elements like titles, logos, and billing blocks.'',
     ''    '',
     ''    FINAL RESULT:'',
     ''    A seamless, high-resolution cinematic poster where the new characters look like they were photographed on-set for this specific production.'']"

definition prompt :: string where
  "prompt = unlines prompt_lines"

text \<open>The message of a response blocked by the safety policy.\<close>

definition safety_message :: string where
  "safety_message =
     [CHR 0xE7, CHR 0x94, CHR 0xB1, CHR 0xE6, CHR 0x96, CHR 0xBC, CHR 0xE5, CHR 0xAE, CHR 0x89, CHR 0xE5,
      CHR 0x85, CHR 0xA8, CHR 0xE6, CHR 0x80, CHR 0xA7, CHR 0xE5, CHR 0x8E, CHR 0x9F, CHR 0xE5, CHR 0x89,
      CHR 0x87, CHR 0xEF, CHR 0xBC, CHR 0x88, CHR 0xE5, CHR 0x8F, CHR 0xAF, CHR 0xE8, CHR 0x83, CHR 0xBD,
      CHR 0xE5, CHR 0x8C, CHR 0x85, CHR 0xE5, CHR 0x90, CHR 0xAB, CHR 0xE5, CHR 0x8F, CHR 0x97, CHR 0xE4,
      CHR 0xBF, CHR 0x9D, CHR 0xE8, CHR 0xAD, CHR 0xB7, CHR 0xE7, CHR 0x9A, CHR 0x84, CHR 0xE4, CHR 0xBA,
      CHR 0xBA, CHR 0xE7, CHR 0x89, CHR 0xA9, CHR 0xE6, CHR 0x88, CHR 0x96, CHR 0xE6, CHR 0x95, CHR 0x8F,
      CHR 0xE6, CHR 0x84, CHR 0x9F, CHR 0xE5, CHR 0x85, CHR 0xA7, CHR 0xE5, CHR 0xAE, CHR 0xB9, CHR 0xEF,
      CHR 0xBC, CHR 0x89, CHR 0xEF, CHR 0xBC, CHR 0x8C] @
     ''AI '' @
     [CHR 0xE6, CHR 0x8B, CHR 0x92, CHR 0xE7, CHR 0xB5, CHR 0x95, CHR 0xE7, CHR 0x94, CHR 0x9F, CHR 0xE6,
      CHR 0x88, CHR 0x90, CHR 0xE6, CHR 0xAD, CHR 0xA4, CHR 0xE5, CHR 0x9C, CHR 0x96, CHR 0xE7, CHR 0x89,
      CHR 0x87, CHR 0xE3, CHR 0x80, CHR 0x82, CHR 0xE8, CHR 0xAB, CHR 0x8B, CHR 0xE5, CHR 0x98, CHR 0x97,
      CHR 0xE8, CHR 0xA9, CHR 0xA6, CHR 0xE6, CHR 0x9B, CHR 0xB4, CHR 0xE6, CHR 0x8F, CHR 0x9B, CHR 0xE6,
      CHR 0xB5, CHR 0xB7, CHR 0xE5, CHR 0xA0, CHR 0xB1, CHR 0xE6, CHR 0x88, CHR 0x96, CHR 0xE7, CHR 0x85,
      CHR 0xA7, CHR 0xE7, CHR 0x89, CHR 0x87, CHR 0xE5, CHR 0x85, CHR 0xA7, CHR 0xE5, CHR 0xAE, CHR 0xB9,
      CHR 0xE5, CHR 0x86, CHR 0x8D, CHR 0xE8, CHR 0xA9, CHR 0xA6, CHR 0xE4, CHR 0xB8, CHR 0x80, CHR 0xE6,
      CHR 0xAC, CHR 0xA1, CHR 0xE3, CHR 0x80, CHR 0x82]"

text \<open>The message of a response with no candidate or no parts.\<close>

definition empty_message :: string where
  "empty_message =
     ''AI '' @
     [CHR 0xE7, CHR 0x84, CHR 0xA1, CHR 0xE6, CHR 0xB3, CHR 0x95, CHR 0xE7, CHR 0x94, CHR 0x9F, CHR 0xE6,
      CHR 0x88, CHR 0x90, CHR 0xE5, CHR 0x9C, CHR 0x96, CHR 0xE7, CHR 0x89, CHR 0x87, CHR 0xEF, CHR 0xBC,
      CHR 0x8C, CHR 0xE8, CHR 0xAB, CHR 0x8B, CHR 0xE6, CHR 0xAA, CHR 0xA2, CHR 0xE6, CHR 0x9F, CHR 0xA5,
      CHR 0xE5, CHR 0x9C, CHR 0x96, CHR 0xE7, CHR 0x89, CHR 0x87, CHR 0xE5, CHR 0x85, CHR 0xA7, CHR 0xE5,
      CHR 0xAE, CHR 0xB9, CHR 0xE6, CHR 0x98, CHR 0xAF, CHR 0xE5, CHR 0x90, CHR 0xA6, CHR 0xE6, CHR 0xB8,
      CHR 0x85, CHR 0xE6, CHR 0x99, CHR 0xB0, CHR 0xE6, CHR 0x88, CHR 0x96, CHR 0xE7, CHR 0xAC, CHR 0xA6,
      CHR 0xE5, CHR 0x90, CHR 0x88, CHR 0xE8, CHR 0xA6, CHR 0x8F, CHR 0xE7, CHR 0xAF, CHR 0x84, CHR 0xE3,
      CHR 0x80, CHR 0x82]"

text \<open>The prefix put before the model's own text (\<^verbatim>\<open>AI\<close>, a word for "replies", a colon).\<close>

definition feedback_prefix :: string where
  "feedback_prefix =
     ''AI '' @
     [CHR 0xE5, CHR 0x9B, CHR 0x9E, CHR 0xE6, CHR 0x87, CHR 0x89, CHR 0xEF, CHR 0xBC, CHR 0x9A]"

text \<open>The message of a response whose parts hold neither an image nor a text.\<close>

definition failed_message :: string where
  "failed_message =
     [CHR 0xE6, CHR 0x9C, CHR 0xAA, CHR 0xE8, CHR 0x83, CHR 0xBD, CHR 0xE6, CHR 0x88, CHR 0x90, CHR 0xE5,
      CHR 0x8A, CHR 0x9F, CHR 0xE7, CHR 0x8D, CHR 0xB2, CHR 0xE5, CHR 0x8F, CHR 0x96, CHR 0xE7, CHR 0xBD,
      CHR 0xAE, CHR 0xE6, CHR 0x8F, CHR 0x9B, CHR 0xE5, CHR 0xBE, CHR 0x8C, CHR 0xE7, CHR 0x9A, CHR 0x84,
      CHR 0xE5, CHR 0xBD, CHR 0xB1, CHR 0xE5, CHR 0x83, CHR 0x8F, CHR 0xE3, CHR 0x80, CHR 0x82]"

text \<open>The message used when the caught error has none.\<close>

definition fallback_message :: string where
  "fallback_message =
     [CHR 0xE7, CHR 0x94, CHR 0x9F, CHR 0xE6, CHR 0x88, CHR 0x90, CHR 0xE9, CHR 0x81, CHR 0x8E, CHR 0xE7,
      CHR 0xA8, CHR 0x8B, CHR 0xE4, CHR 0xB8, CHR 0xAD, CHR 0xE7, CHR 0x99, CHR 0xBC, CHR 0xE7, CHR 0x94,
      CHR 0x9F, CHR 0xE6, CHR 0x9C, CHR 0xAA, CHR 0xE7, CHR 0x9F, CHR 0xA5, CHR 0xE9, CHR 0x8C, CHR 0xAF,
      CHR 0xE8, CHR 0xAA, CHR 0xA4, CHR 0xE3, CHR 0x80, CHR 0x82]"

text \<open>The three messages of \<^verbatim>\<open>handleProcess\<close> for a missing key, poster and person.\<close>

definition needs_key_message :: string where
  "needs_key_message =
     [CHR 0xE4, CHR 0xBD, CHR 0xBF, CHR 0xE7, CHR 0x94, CHR 0xA8] @
     '' Pro '' @
     [CHR 0xE6, CHR 0xA8, CHR 0xA1, CHR 0xE5, CHR 0xBC, CHR 0x8F, CHR 0xE9, CHR 0x9C, CHR 0x80, CHR 0xE8,
      CHR 0xA6, CHR 0x81, CHR 0xE5, CHR 0x85, CHR 0x88, CHR 0xE9, CHR 0x81, CHR 0xB8, CHR 0xE5, CHR 0x8F,
      CHR 0x96, CHR 0xE6, CHR 0x82, CHR 0xA8, CHR 0xE7, CHR 0x9A, CHR 0x84] @
     '' API Key'' @
     [CHR 0xE3, CHR 0x80, CHR 0x82]"

definition needs_poster_message :: string where
  "needs_poster_message =
     [CHR 0xE8, CHR 0xAB, CHR 0x8B, CHR 0xE4, CHR 0xB8, CHR 0x8A, CHR 0xE5, CHR 0x82, CHR 0xB3, CHR 0xE4,
      CHR 0xB8, CHR 0x80, CHR 0xE5, CHR 0xBC, CHR 0xB5, CHR 0xE9, CHR 0x9B, CHR 0xBB, CHR 0xE5, CHR 0xBD,
      CHR 0xB1, CHR 0xE6, CHR 0xB5, CHR 0xB7, CHR 0xE5, CHR 0xA0, CHR 0xB1, CHR 0xE3, CHR 0x80, CHR 0x82]"

definition needs_person_message :: string where
  "needs_person_message =
     [CHR 0xE8, CHR 0xAB, CHR 0x8B, CHR 0xE4, CHR 0xB8, CHR 0x8A, CHR 0xE5, CHR 0x82, CHR 0xB3, CHR 0xE8,
      CHR 0x87, CHR 0xB3, CHR 0xE5, CHR 0xB0, CHR 0x91, CHR 0xE4, CHR 0xB8, CHR 0x80, CHR 0xE4, CHR 0xBD,
      CHR 0x8D, CHR 0xE7, CHR 0xBD, CHR 0xAE, CHR 0xE6, CHR 0x8F, CHR 0x9B, CHR 0xE4, CHR 0xBA, CHR 0xBA,
      CHR 0xE7, CHR 0x89, CHR 0xA9, CHR 0xE3, CHR 0x80, CHR 0x82]"

text \<open>The message shown when the key is invalid or has expired.\<close>

definition key_invalid_message :: string where
  "key_invalid_message =
     ''API Key '' @
     [CHR 0xE7, CHR 0x84, CHR 0xA1, CHR 0xE6, CHR 0x95, CHR 0x88, CHR 0xE6, CHR 0x88, CHR 0x96, CHR 0xE5,
      CHR 0xB7, CHR 0xB2, CHR 0xE9, CHR 0x81, CHR 0x8E, CHR 0xE6, CHR 0x9C, CHR 0x9F, CHR 0xEF, CHR 0xBC,
      CHR 0x8C, CHR 0xE8, CHR 0xAB, CHR 0x8B, CHR 0xE9, CHR 0x87, CHR 0x8D, CHR 0xE6, CHR 0x96, CHR 0xB0,
      CHR 0xE9, CHR 0x81, CHR 0xB8, CHR 0xE5, CHR 0x8F, CHR 0x96, CHR 0xE3, CHR 0x80, CHR 0x82]"

subsection \<open>\<^verbatim>\<open>generateSwappedPoster\<close>\<close>

text \<open>One image of the request: \<^verbatim>\<open>{ inlineData: { data: img.base64, mimeType: img.mimeType } }\<close>.\<close>

definition imagePart :: "UploadedImage \<Rightarrow> Part" where
  "imagePart img =
     \<lparr>inlineData = Some \<lparr>data = base64 img, blobMimeType = mimeType img\<rparr>, partText = None\<rparr>"

text \<open>The array \<^verbatim>\<open>parts\<close> of the request.\<close>

definition requestParts :: "UploadedImage \<Rightarrow> UploadedImage list \<Rightarrow> Part list" where
  "requestParts poster people =
     [imagePart poster] @ map imagePart people @ [\<lparr>inlineData = None, partText = Some prompt\<rparr>]"

text \<open>\<^verbatim>\<open>response.candidates?.[0]\<close> and \<^verbatim>\<open>candidate.content?.parts\<close>.\<close>

definition firstCandidate :: "GenerateContentResponse \<Rightarrow> Candidate option" where
  "firstCandidate response =
     (case candidates response of None \<Rightarrow> None | Some [] \<Rightarrow> None | Some (c # _) \<Rightarrow> Some c)"

definition contentParts :: "Candidate \<Rightarrow> Part list option" where
  "contentParts candidate = (case content candidate of None \<Rightarrow> None | Some c \<Rightarrow> parts c)"

text \<open>The \<^verbatim>\<open>for\<close> loop over the parts: the payload of the first part that has one.\<close>

fun firstInlineData :: "Part list \<Rightarrow> Blob option" where
  "firstInlineData [] = None"
| "firstInlineData (part # rest) =
     (case inlineData part of Some b \<Rightarrow> Some b | None \<Rightarrow> firstInlineData rest)"

text \<open>
  The statements of the \<^verbatim>\<open>try\<close> block after the \<^verbatim>\<open>await\<close>: the data reference that
  is returned, or the error that is thrown (and then caught by the \<^verbatim>\<open>catch\<close> clause).
  An array is truthy also when it is empty, so \<^verbatim>\<open>!candidate.content?.parts\<close> holds
  only of an absent list.
\<close>

definition resolveResponse :: "GenerateContentResponse \<Rightarrow> js_error + string" where
  "resolveResponse response =
     (let candidate = firstCandidate response in
      if candidate = None \<or> Option.bind candidate contentParts = None then
        (if Option.bind candidate finishReason = Some ''SAFETY''
         then Inl (Error (Some safety_message))
         else Inl (Error (Some empty_message)))
      else
        (let ps = the (Option.bind candidate contentParts) in
         case firstInlineData ps of
           Some b \<Rightarrow> Inr (''data:image/png;base64,'' @ data b)
         | None \<Rightarrow>
            (case find (\<lambda>p. truthy_string (partText p)) ps of
               Some textPart \<Rightarrow> Inl (Error (Some (feedback_prefix @ the (partText textPart))))
             | None \<Rightarrow> Inl (Error (Some failed_message)))))"

text \<open>The \<^verbatim>\<open>catch\<close> clause: it always throws, and this is the error it throws.\<close>

definition catchClause :: "js_error \<Rightarrow> js_error" where
  "catchClause e =
     (if (case message e of None \<Rightarrow> False
          | Some m \<Rightarrow> js_includes m ''Requested entity was not found'')
      then Error (Some ''KEY_NOT_FOUND'')
      else Error (Some (if truthy_string (message e) then the (message e) else fallback_message)))"

text \<open>
  The argument of the one remote call: the model's name, the parts, and the configuration
  with the ratio chosen for the poster.
\<close>

definition generationRequest ::
  "UploadedImage \<Rightarrow> UploadedImage list \<Rightarrow> GenerateContentParameters" where
  "generationRequest poster people =
     (let targetRatio = getClosestAspectRatio (width poster) (height poster)
      in \<lparr>model = ''gemini-3-pro-image-preview'',
          contents = requestParts poster people,
          imageConfig = \<lparr>aspectRatio = targetRatio, imageSize = ''1K''\<rparr>\<rparr>)"

text \<open>
  The adapter. \<open>ai\<close> stands for \<^verbatim>\<open>ai.models.generateContent\<close>, the remote service;
  the result is what the returned promise settles to: \<open>Inr\<close> the data reference it
  fulfils with, \<open>Inl\<close> the error it rejects with.
\<close>

definition generateSwappedPoster ::
  "client \<Rightarrow> UploadedImage \<Rightarrow> UploadedImage list \<Rightarrow> js_error + string" where
  "generateSwappedPoster ai poster people =
     (case ai (generationRequest poster people) of
        Rejected e \<Rightarrow> Inl (catchClause e)
      | Fulfilled response \<Rightarrow>
         (case resolveResponse response of
            Inl e \<Rightarrow> Inl (catchClause e)
          | Inr dataUrl \<Rightarrow> Inr dataUrl))"

subsection \<open>\<^verbatim>\<open>handleProcess\<close>\<close>

text \<open>The record \<^verbatim>\<open>AppState\<close> of \<^verbatim>\<open>types.ts\<close>.\<close>

record AppState =
  poster :: "UploadedImage option"
  people :: "UploadedImage list"
  isProcessing :: bool
  result :: "string option"
  error :: "string option"

text \<open>
  The state of the component \<^verbatim>\<open>App\<close>: its two state variables, and a log of the
  invocations of \<^verbatim>\<open>generateSwappedPoster\<close> (each of which issues the one remote call),
  kept so that "no call was made" can be said.
\<close>

record App =
  state :: AppState
  hasKey :: bool
  invocations :: "(UploadedImage \<times> UploadedImage list) list"

text \<open>
  One run of the handler from start to end, with no other event in between: each
  \<^verbatim>\<open>setState(prev => ...)\<close> updates the state left by the one before.
\<close>

definition handleProcess :: "client \<Rightarrow> App \<Rightarrow> App" where
  "handleProcess ai app =
     (if \<not> hasKey app then
        app\<lparr>state := (state app)\<lparr>error := Some needs_key_message\<rparr>\<rparr>
      else case poster (state app) of
        None \<Rightarrow> app\<lparr>state := (state app)\<lparr>error := Some needs_poster_message\<rparr>\<rparr>
      | Some thePoster \<Rightarrow>
         if length (people (state app)) = 0 then
           app\<lparr>state := (state app)\<lparr>error := Some needs_person_message\<rparr>\<rparr>
         else
           (let started = app\<lparr>state := (state app)\<lparr>isProcessing := True, error := None, result := None\<rparr>,
                              invocations := invocations app @ [(thePoster, people (state app))]\<rparr>
            in case generateSwappedPoster ai thePoster (people (state app)) of
                 Inr resultUrl \<Rightarrow>
                   started\<lparr>state := (state started)\<lparr>result := Some resultUrl, isProcessing := False\<rparr>\<rparr>
               | Inl err \<Rightarrow>
                   if message err = Some ''KEY_NOT_FOUND'' then
                     started\<lparr>hasKey := False,
                             state := (state started)\<lparr>isProcessing := False,
                                                      error := Some key_invalid_message\<rparr>\<rparr>
                   else
                     started\<lparr>state := (state started)\<lparr>error := message err, isProcessing := False\<rparr>\<rparr>))"

subsection \<open>Sample data\<close>

text \<open>
  The data of the end-to-end scenarios: a poster of 1000 by 1500 pixels, two persons, a
  session that holds them with a key selected, and responses of the remote service with
  one candidate.
\<close>

definition scenario_poster :: UploadedImage where
  "scenario_poster =
     \<lparr>imageId = ''k3j2h1g0f'', url = ''data:image/jpeg;base64,UE9TVEVS'', base64 = ''UE9TVEVS'',
      mimeType = ''image/jpeg'', name = ''poster.jpg'', width = Some (Num 1000), height = Some (Num 1500)\<rparr>"

definition scenario_person1 :: UploadedImage where
  "scenario_person1 =
     \<lparr>imageId = ''a1b2c3d4e'', url = ''data:image/png;base64,QU5O'', base64 = ''QU5O'',
      mimeType = ''image/png'', name = ''ann.png'', width = Some (Num 640), height = Some (Num 640)\<rparr>"

definition scenario_person2 :: UploadedImage where
  "scenario_person2 =
     \<lparr>imageId = ''z9y8x7w6v'', url = ''data:image/webp;base64,Qk9C'', base64 = ''Qk9C'',
      mimeType = ''image/webp'', name = ''bob.webp'', width = None, height = None\<rparr>"

definition scenario_app :: App where
  "scenario_app =
     \<lparr>state = \<lparr>poster = Some scenario_poster, people = [scenario_person1, scenario_person2],
               isProcessing = False, result = None, error = None\<rparr>,
      hasKey = True, invocations = []\<rparr>"

definition text_part :: "string \<Rightarrow> Part" where
  "text_part t = \<lparr>inlineData = None, partText = Some t\<rparr>"

definition image_part :: "string \<Rightarrow> Part" where
  "image_part d = \<lparr>inlineData = Some \<lparr>data = d, blobMimeType = ''image/png''\<rparr>, partText = None\<rparr>"

definition response_of :: "Part list option \<Rightarrow> string option \<Rightarrow> GenerateContentResponse" where
  "response_of ps reason =
     \<lparr>candidates = Some [\<lparr>content = Some \<lparr>parts = ps\<rparr>, finishReason = reason\<rparr>]\<rparr>"

section \<open>Properties\<close>

subsection \<open>Auxiliary facts\<close>

text \<open>\<^const>\<open>js_includes\<close> is the contiguous-sublist relation of the library.\<close>

lemma js_includes_sublist: "js_includes s n \<longleftrightarrow> sublist n s"
  by (induction s) (auto simp: sublist_Cons_right)

subsection \<open>Facts about rounding\<close>

lemma pow2_pos: "0 < pow2 k"
  by (simp add: pow2_def)

lemma pow2_add: "pow2 (k + l) = pow2 k * pow2 l"
  by (simp add: pow2_def power_int_add)

lemma pow2_mono: "k \<le> l \<Longrightarrow> pow2 k \<le> pow2 l"
  by (simp add: pow2_def power_int_increasing)

lemma pow2_strict_mono: "k < l \<Longrightarrow> pow2 k < pow2 l"
  by (simp add: pow2_def power_int_strict_increasing)

lemma pow2_nat: "pow2 (int n) = 2 ^ n"
  by (simp add: pow2_def)

lemma bitlen_pow2_bounds:
  assumes "0 < a"
  shows "pow2 (bitlen a - 1) \<le> of_int a" "of_int a < pow2 (bitlen a)"
proof -
  have b: "2 ^ nat (bitlen a - 1) \<le> a" "a < 2 ^ nat (bitlen a)"
    using bitlen_bounds[OF assms] by auto
  have ge: "1 \<le> bitlen a"
    using assms by (auto simp: bitlen_alt_def)
  have "pow2 (bitlen a - 1) = 2 ^ nat (bitlen a - 1)"
    using ge pow2_nat[of "nat (bitlen a - 1)"] by simp
  also have "\<dots> \<le> of_int a"
    using b(1) by (metis of_int_le_iff of_int_numeral of_int_power)
  finally show "pow2 (bitlen a - 1) \<le> of_int a" .
  have "of_int a < (2::rat) ^ nat (bitlen a)"
    using b(2) by (metis of_int_less_iff of_int_numeral of_int_power)
  also have "\<dots> = pow2 (bitlen a)"
    using ge pow2_nat[of "nat (bitlen a)"] by simp
  finally show "of_int a < pow2 (bitlen a)" .
qed

text \<open>\<^const>\<open>binade\<close> is the exponent of the power of two at or below the absolute value.\<close>

lemma binade_bounds:
  assumes "x \<noteq> 0"
  shows "pow2 (binade x) \<le> \<bar>x\<bar> \<and> \<bar>x\<bar> < pow2 (binade x + 1)"
proof -
  obtain a b where ab: "quotient_of \<bar>x\<bar> = (a, b)" by (cases "quotient_of \<bar>x\<bar>")
  have b: "0 < b" using ab by (rule quotient_of_denom_pos)
  have x: "\<bar>x\<bar> = of_int a / of_int b"
    using ab by (simp add: quotient_of_div)
  have a: "0 < a"
  proof -
    have "0 < \<bar>x\<bar>" using assms by simp
    then show ?thesis using x b by (simp add: zero_less_divide_iff)
  qed
  let ?k = "bitlen a - bitlen b"
  have low: "pow2 (?k - 1) < \<bar>x\<bar>"
  proof -
    have "pow2 (?k - 1) * of_int b < pow2 (?k - 1) * pow2 (bitlen b)"
      using bitlen_pow2_bounds(2)[OF b] pow2_pos by simp
    also have "\<dots> = pow2 (bitlen a - 1)"
      by (simp add: pow2_add[symmetric])
    also have "\<dots> \<le> of_int a"
      using bitlen_pow2_bounds(1)[OF a] .
    finally show ?thesis
      using b x by (simp add: pos_less_divide_eq)
  qed
  have high: "\<bar>x\<bar> < pow2 (?k + 1)"
  proof -
    have "of_int a < pow2 (bitlen a)"
      using bitlen_pow2_bounds(2)[OF a] .
    also have "\<dots> = pow2 (?k + 1) * pow2 (bitlen b - 1)"
      by (simp add: pow2_add[symmetric])
    also have "\<dots> \<le> pow2 (?k + 1) * of_int b"
      using bitlen_pow2_bounds(1)[OF b] pow2_pos[of "?k + 1"] by simp
    finally show ?thesis
      using b x by (simp add: pos_divide_less_eq)
  qed
  show ?thesis
  proof (cases "pow2 ?k \<le> \<bar>x\<bar>")
    case True
    then have "binade x = ?k" by (simp add: binade_def ab)
    then show ?thesis using True high by simp
  next
    case False
    then have "binade x = ?k - 1" by (simp add: binade_def ab)
    then show ?thesis using False low by simp
  qed
qed

lemma binade_unique:
  assumes "pow2 e \<le> \<bar>x\<bar>" and "\<bar>x\<bar> < pow2 (e + 1)"
  shows "binade x = e"
proof -
  have nz: "x \<noteq> 0" using assms(1) pow2_pos[of e] by auto
  note b = binade_bounds[OF nz]
  have "\<not> binade x < e"
  proof
    assume "binade x < e"
    then have "pow2 (binade x + 1) \<le> pow2 e" by (intro pow2_mono) simp
    then show False using b assms(1) by simp
  qed
  moreover have "\<not> e < binade x"
  proof
    assume "e < binade x"
    then have "pow2 (e + 1) \<le> pow2 (binade x)" by (intro pow2_mono) simp
    then show False using b assms(2) by simp
  qed
  ultimately show ?thesis by simp
qed

lemma nearest_even_cases: "nearest_even y = \<lfloor>y\<rfloor> \<or> nearest_even y = \<lfloor>y\<rfloor> + 1"
  by (simp add: nearest_even_def Let_def)

lemma nearest_even_of_int [simp]: "nearest_even (of_int n) = n"
  by (simp add: nearest_even_def)

lemma nearest_even_le: "y \<le> of_int N \<Longrightarrow> nearest_even y \<le> N"
proof -
  assume le: "y \<le> of_int N"
  show ?thesis
  proof (cases "y = of_int N")
    case True
    then show ?thesis by simp
  next
    case False
    then have "y < of_int N" using le by simp
    then have "\<lfloor>y\<rfloor> < N" by (simp add: floor_less_iff)
    then show ?thesis using nearest_even_cases[of y] by auto
  qed
qed

lemma nearest_even_ge: "of_int N \<le> y \<Longrightarrow> N \<le> nearest_even y"
proof -
  assume "of_int N \<le> y"
  then have "N \<le> \<lfloor>y\<rfloor>" by (simp add: le_floor_iff)
  then show ?thesis using nearest_even_cases[of y] by auto
qed

text \<open>
  In a binade of the normal range, short of the last, rounding is the nearest multiple
  of the spacing of that binade: no overflow and no zero.
\<close>

lemma round64_in_binade:
  assumes lo: "pow2 e \<le> \<bar>x\<bar>" and hi: "\<bar>x\<bar> < pow2 (e + 1)"
    and e: "- 1022 \<le> e" "e \<le> 1022"
  shows "round64 x = Num (of_int (nearest_even (x / pow2 (e - 52))) * pow2 (e - 52))"
proof -
  let ?q = "pow2 (e - 52)"
  let ?m = "nearest_even (x / ?q)"
  have nz: "x \<noteq> 0" using lo pow2_pos[of e] by auto
  have be: "binade x = e" using lo hi by (rule binade_unique)
  have q: "0 < ?q" by (rule pow2_pos)
  have bound: "\<bar>x\<bar> / ?q < of_int (2 ^ 53)"
  proof -
    have "(e - 52) + 53 = e + 1" by simp
    then have "pow2 (e + 1) = ?q * pow2 53"
      by (metis pow2_add)
    also have "pow2 53 = of_int (2 ^ 53)"
      by (simp add: pow2_def)
    finally show ?thesis using hi q by (simp add: pos_divide_less_eq mult.commute)
  qed
  have up: "?m \<le> 2 ^ 53"
  proof (rule nearest_even_le)
    have "x / ?q \<le> \<bar>x\<bar> / ?q" using q by (simp add: divide_right_mono)
    then show "x / ?q \<le> of_int (2 ^ 53)" using bound by simp
  qed
  have down: "- (2 ^ 53) \<le> ?m"
  proof (rule nearest_even_ge)
    have "(- \<bar>x\<bar>) / ?q \<le> x / ?q" using q by (intro divide_right_mono) auto
    then show "of_int (- (2 ^ 53)) \<le> x / ?q" using bound by simp
  qed
  have "\<bar>of_int ?m * ?q\<bar> = \<bar>of_int ?m :: rat\<bar> * ?q"
    using q by (simp add: abs_mult)
  also have "\<dots> \<le> of_int (2 ^ 53) * ?q"
  proof -
    have "\<bar>?m\<bar> \<le> 2 ^ 53" using up down by simp
    then have "\<bar>of_int ?m :: rat\<bar> \<le> of_int (2 ^ 53)"
      by (metis of_int_abs of_int_le_iff)
    then show ?thesis using q by (simp add: mult_right_mono)
  qed
  also have "\<dots> = pow2 (e + 1)"
  proof -
    have "of_int (2 ^ 53) = pow2 53" by (simp add: pow2_def)
    moreover have "pow2 53 * ?q = pow2 (53 + (e - 52))" by (simp only: pow2_add)
    moreover have "53 + (e - 52) = e + 1" by simp
    ultimately show ?thesis by simp
  qed
  also have "\<dots> < pow2 1024"
    using e by (intro pow2_strict_mono) simp
  finally have small: "\<not> pow2 1024 \<le> \<bar>of_int ?m * ?q\<bar>" by simp
  have lower: "of_int (2 ^ 52) \<le> \<bar>x\<bar> / ?q"
  proof -
    have "(e - 52) + 52 = e" by simp
    then have "pow2 e = ?q * pow2 52"
      by (metis pow2_add)
    also have "pow2 52 = of_int (2 ^ 52)"
      by (simp add: pow2_def)
    finally show ?thesis using lo q by (simp add: pos_le_divide_eq mult.commute)
  qed
  have "?m \<noteq> 0"
  proof (cases "0 < x")
    case True
    then have "of_int (2 ^ 52) \<le> x / ?q" using lower by simp
    then have "2 ^ 52 \<le> ?m" by (rule nearest_even_ge)
    then show ?thesis by simp
  next
    case False
    then have "\<bar>x\<bar> = - x" using nz by simp
    then have "x / ?q \<le> of_int (- (2 ^ 52))" using lower by simp
    then have "?m \<le> - (2 ^ 52)" by (rule nearest_even_le)
    then show ?thesis by simp
  qed
  then have "of_int ?m * ?q \<noteq> 0" using q by simp
  then show ?thesis
    using nz be e small by (simp add: round64_def Let_def max_def)
qed

text \<open>The nearest integer of a fraction, in integer arithmetic.\<close>

lemma nearest_even_fraction:
  assumes "0 < b"
  shows "nearest_even (of_int a / of_int b) =
     (let n = a div b; r = a mod b
      in if 2 * r < b then n else if b < 2 * r then n + 1 else if even n then n else n + 1)"
proof -
  have fl: "\<lfloor>rat_of_int a / of_int b\<rfloor> = a div b"
    by (simp add: floor_divide_of_int_eq)
  have "rat_of_int a = of_int (a div b) * of_int b + of_int (a mod b)"
    by (metis div_mult_mod_eq of_int_add of_int_mult)
  then have fr: "rat_of_int a / of_int b - of_int (a div b) = of_int (a mod b) / of_int b"
    using assms by (simp add: field_simps)
  have lt: "rat_of_int (a mod b) / of_int b < 1 / 2 \<longleftrightarrow> 2 * (a mod b) < b"
  proof -
    have "rat_of_int (a mod b) / of_int b < 1 / 2
        \<longleftrightarrow> rat_of_int (2 * (a mod b)) < of_int b"
      using assms by (simp add: field_simps)
    then show ?thesis by (simp only: of_int_less_iff)
  qed
  have gt: "1 / 2 < rat_of_int (a mod b) / of_int b \<longleftrightarrow> b < 2 * (a mod b)"
  proof -
    have "1 / 2 < rat_of_int (a mod b) / of_int b
        \<longleftrightarrow> rat_of_int b < of_int (2 * (a mod b))"
      using assms by (simp add: field_simps)
    then show ?thesis by (simp only: of_int_less_iff)
  qed
  show ?thesis
    unfolding nearest_even_def Let_def fl fr lt gt ..
qed

lemma nearest_even_numeral:
  "nearest_even (numeral a / numeral b) =
     (let n = (numeral a :: int) div numeral b; r = (numeral a :: int) mod numeral b
      in if 2 * r < numeral b then n else if numeral b < 2 * r then n + 1
         else if even n then n else n + 1)"
  using nearest_even_fraction[where b = "numeral b" and a = "numeral a", OF zero_less_numeral]
  by (simp only: of_int_numeral)

lemma nearest_even_neg_numeral:
  "nearest_even (- (numeral a / numeral b)) =
     (let n = (- numeral a :: int) div numeral b; r = (- numeral a :: int) mod numeral b
      in if 2 * r < numeral b then n else if numeral b < 2 * r then n + 1
         else if even n then n else n + 1)"
  using nearest_even_fraction[where b = "numeral b" and a = "- numeral a", OF zero_less_numeral]
  by (simp only: of_int_numeral of_int_neg_numeral divide_minus_left)

lemma nearest_even_whole:
  "nearest_even (numeral a) = numeral a" "nearest_even (- numeral a) = - numeral a"
  using nearest_even_of_int[of "numeral a"] nearest_even_of_int[of "- numeral a"]
  by simp_all

text \<open>The rules by which the simplifier computes with doubles between \<open>1/32\<close> and \<open>4\<close>.\<close>

lemmas round64_at = round64_in_binade[of 1] round64_in_binade[of 0] round64_in_binade[of "-1"]
  round64_in_binade[of "-2"] round64_in_binade[of "-3"] round64_in_binade[of "-4"]
  round64_in_binade[of "-5"]

lemmas js_eval = js_div_def js_sub_def is_zero_def is_infinite_def round64_at pow2_def
  nearest_even_numeral nearest_even_neg_numeral nearest_even_whole Let_def

text \<open>
  Rounding at work: \<open>7/6\<close> rounds up and \<open>4/3\<close> rounds down, so that the doubles of
  \<^verbatim>\<open>4 / 3\<close> and \<^verbatim>\<open>700 / 600\<close> are nearer to each other than \<open>1\<close> and the double of
  \<^verbatim>\<open>700 / 600\<close>, although \<open>4/3 - 7/6\<close> and \<open>7/6 - 1\<close> are both \<open>1/6\<close>.
\<close>

lemma round64_examples:
  "round64 (7 / 6) = Num (5254199565265579 / 4503599627370496)"
  "round64 (4 / 3) = Num (6004799503160661 / 4503599627370496)"
  "7 / 6 < (5254199565265579 / 4503599627370496 :: rat)"
  "(6004799503160661 / 4503599627370496 :: rat) < 4 / 3"
  by (simp_all add: js_eval)

lemma round64_not_NaN [simp]: "round64 x \<noteq> NaN"
  by (simp add: round64_def Let_def)

text \<open>The comparison on numbers other than NaN.\<close>

lemma js_lt_trans: "js_lt a b \<Longrightarrow> js_lt b c \<Longrightarrow> js_lt a c"
  by (cases a; cases b; cases c) auto

lemma js_lt_not: "js_lt a b \<Longrightarrow> \<not> js_lt c b \<Longrightarrow> c \<noteq> NaN \<Longrightarrow> js_lt a c"
  by (cases a; cases b; cases c) auto

lemma js_lt_asym: "js_lt a b \<Longrightarrow> \<not> js_lt b a"
  by (cases a; cases b) auto

lemma js_sub_number:
  "x \<noteq> NaN \<Longrightarrow> \<not> is_infinite x \<Longrightarrow> y \<noteq> NaN \<Longrightarrow> js_sub x y \<noteq> NaN"
  by (auto simp: js_sub_def)

lemma js_abs_NaN_iff [simp]: "js_abs x = NaN \<longleftrightarrow> x = NaN"
  by (cases x) auto

subsection \<open>Facts about the selector's parts\<close>

text \<open>The values of the five candidates, as doubles.\<close>

lemma supported_values:
  "supported =
    [(''9:16'', Num (9 / 16)),
     (''3:4'', Num (3 / 4)),
     (''1:1'', Num 1),
     (''4:3'', Num (6004799503160661 / 4503599627370496)),
     (''16:9'', Num (2001599834386887 / 1125899906842624))]"
  by (simp add: supported_def js_eval)

text \<open>
  When no distance is NaN, the fold of \<^const>\<open>closer\<close> over a non-empty list ends on an
  element that splits the list: everything before it is strictly farther from the ratio,
  nothing after it is strictly nearer.
\<close>

lemma closer_foldl:
  assumes "\<forall>c \<in> set (x # xs). distance ratio c \<noteq> NaN"
  shows "\<exists>pre c post. x # xs = pre @ c # post \<and> foldl (closer ratio) x xs = c
     \<and> (\<forall>p \<in> set pre. js_lt (distance ratio c) (distance ratio p))
     \<and> (\<forall>q \<in> set post. \<not> js_lt (distance ratio q) (distance ratio c))"
  using assms
proof (induction xs rule: rev_induct)
  case Nil
  show ?case
    by (rule exI[of _ "[]"], rule exI[of _ x], rule exI[of _ "[]"]) simp
next
  case (snoc y ys)
  then obtain pre c post where split: "x # ys = pre @ c # post"
    and c: "foldl (closer ratio) x ys = c"
    and before: "\<forall>p \<in> set pre. js_lt (distance ratio c) (distance ratio p)"
    and after: "\<forall>q \<in> set post. \<not> js_lt (distance ratio q) (distance ratio c)"
    by auto
  have number: "distance ratio q \<noteq> NaN" if "q \<in> set post" for q
    using snoc.prems split that
    by (metis Un_iff append_Cons list.set_intros(2) set_append)
  show ?case
  proof (cases "js_lt (distance ratio y) (distance ratio c)")
    case True
    have "x # ys @ [y] = (pre @ c # post) @ y # []"
      using split by simp
    moreover have "foldl (closer ratio) x (ys @ [y]) = y"
      using True c by (simp add: closer_def)
    moreover have "\<forall>p \<in> set (pre @ c # post). js_lt (distance ratio y) (distance ratio p)"
      using True before after number by (auto intro: js_lt_trans js_lt_not)
    ultimately show ?thesis
      by (intro exI[of _ "pre @ c # post"] exI[of _ y] exI[of _ "[]"]) simp
  next
    case False
    have "x # ys @ [y] = pre @ c # (post @ [y])"
      using split by simp
    moreover have "foldl (closer ratio) x (ys @ [y]) = c"
      using False c by (simp add: closer_def)
    moreover have "\<forall>q \<in> set (post @ [y]). \<not> js_lt (distance ratio q) (distance ratio c)"
      using False after by auto
    ultimately show ?thesis using before
      by (intro exI[of _ pre] exI[of _ c] exI[of _ "post @ [y]"]) simp
  qed
qed

text \<open>When the ratio is NaN every distance is NaN, nothing is nearer, and the first stays.\<close>

lemma closer_foldl_NaN: "foldl (closer NaN) x xs = x"
  by (induction xs rule: rev_induct) (simp_all add: closer_def distance_def js_sub_def)

lemma distance_supported:
  assumes "ratio \<noteq> NaN" and "c \<in> set supported"
  shows "distance ratio c \<noteq> NaN"
proof -
  have "\<forall>c \<in> set supported. snd c \<noteq> NaN \<and> \<not> is_infinite (snd c)"
    unfolding supported_values by (simp add: is_infinite_def)
  then show ?thesis
    using assms by (simp add: distance_def js_sub_number)
qed

lemma reduce_supported: "reduce f supported = Some (foldl f (hd supported) (tl supported))"
  by (simp add: supported_def)

lemma supported_names:
  "map fst supported = [''9:16'', ''3:4'', ''1:1'', ''4:3'', ''16:9'']"
  by (simp add: supported_def)

text \<open>The selector by cases of its arguments.\<close>

lemma getClosestAspectRatio_present:
  "getClosestAspectRatio (Some w) (Some h) =
     (if is_zero w \<or> w = NaN \<or> is_zero h \<or> h = NaN then ''3:4''
      else fst (the (reduce (closer (js_div w h)) supported)))"
  by (simp add: getClosestAspectRatio_def falsy_number_def)

lemma getClosestAspectRatio_None [simp]:
  "getClosestAspectRatio None h = ''3:4''" "getClosestAspectRatio w None = ''3:4''"
  by (simp_all add: getClosestAspectRatio_def falsy_number_def)

lemmas selector_eval = getClosestAspectRatio_present reduce_supported supported_values
  closer_def distance_def js_eval

text \<open>
  The selector on doubles and the selector of the specification on some sizes. They
  agree on the poster of scenario A (1000 by 1500) and differ at 700 by 600 and at 1400
  by 900, where the exact distances tie and the rounded ones do not.
\<close>

lemma getClosestAspectRatio_scenario_A:
  "getClosestAspectRatio (Some (Num 1000)) (Some (Num 1500)) = ''3:4''"
  by (simp add: selector_eval)

lemma getClosestAspectRatio_rounding:
  "getClosestAspectRatio (Some (Num 700)) (Some (Num 600)) = ''4:3''"
  "getClosestAspectRatio (Some (Num 1400)) (Some (Num 900)) = ''16:9''"
  "getClosestAspectRatio (Some (Num 21)) (Some (Num 32)) = ''9:16''"
  by (simp_all add: selector_eval)

lemma spec_selector_examples:
  "spec_selector 1000 1500 = ''3:4''" "spec_selector 700 600 = ''1:1''"
  "spec_selector 1400 900 = ''4:3''" "spec_selector 21 32 = ''9:16''"
  by (simp_all add: spec_selector_def spec_candidates_def)

subsection \<open>The aspect-ratio selector\<close>

text \<open>
  Claim C1, as the code has it. For every width other than zero and NaN and every height
  above \<open>0\<close>, the selector returns the name of one of the five candidates
  9:16, 3:4, 1:1, 4:3, 16:9, and that candidate is the first one, in this order, whose
  distance \<open>\<bar>value - width / height\<bar>\<close> is minimal, where the values, the ratio and the
  distances are the doubles that the program computes: no candidate is strictly nearer
  to the ratio, and every candidate listed before it is strictly farther.
\<close>

theorem getClosestAspectRatio_first_minimal:
  assumes "w \<noteq> Num 0" and "w \<noteq> NegZero" and "w \<noteq> NaN" and "js_lt (Num 0) h"
  shows "getClosestAspectRatio (Some w) (Some h) \<in> {''9:16'', ''3:4'', ''1:1'', ''4:3'', ''16:9''}
     \<and> (\<exists>pre c post. supported = pre @ c # post
          \<and> getClosestAspectRatio (Some w) (Some h) = fst c
          \<and> (\<forall>p \<in> set pre. js_lt (distance (js_div w h) c) (distance (js_div w h) p))
          \<and> (\<forall>q \<in> set supported. \<not> js_lt (distance (js_div w h) q) (distance (js_div w h) c)))"
proof -
  let ?r = "js_div w h"
  have h: "\<not> is_zero h" "h \<noteq> NaN"
    using assms(4) by (cases h; auto simp: is_zero_def)+
  have ne: "supported = hd supported # tl supported"
    by (simp add: supported_def)
  have res: "getClosestAspectRatio (Some w) (Some h)
      = fst (foldl (closer ?r) (hd supported) (tl supported))"
    using assms(1-3) h by (simp add: getClosestAspectRatio_present reduce_supported is_zero_def)
  have "\<exists>pre c post. hd supported # tl supported = pre @ c # post
      \<and> foldl (closer ?r) (hd supported) (tl supported) = c
      \<and> (\<forall>p \<in> set pre. js_lt (distance ?r c) (distance ?r p))
      \<and> (\<forall>q \<in> set post. \<not> js_lt (distance ?r q) (distance ?r c))"
  proof (cases "?r = NaN")
    case True
    have "\<not> js_lt (distance NaN q) (distance NaN (hd supported))" for q
      by (simp add: distance_def js_sub_def)
    then show ?thesis
      unfolding True closer_foldl_NaN
      by (intro exI[of _ "[]"] exI[of _ "hd supported"] exI[of _ "tl supported"]) simp
  next
    case False
    then have "\<forall>c \<in> set (hd supported # tl supported). distance ?r c \<noteq> NaN"
      using distance_supported ne by metis
    then show ?thesis by (rule closer_foldl)
  qed
  then obtain pre c post where split: "hd supported # tl supported = pre @ c # post"
      and c: "foldl (closer ?r) (hd supported) (tl supported) = c"
      and before: "\<forall>p \<in> set pre. js_lt (distance ?r c) (distance ?r p)"
      and after: "\<forall>q \<in> set post. \<not> js_lt (distance ?r q) (distance ?r c)"
    by blast
  have sup: "supported = pre @ c # post"
    using ne split by simp
  have self: "\<not> js_lt (distance ?r c) (distance ?r c)"
    using js_lt_asym by blast
  have minimal: "\<forall>q \<in> set supported. \<not> js_lt (distance ?r q) (distance ?r c)"
    unfolding sup using before after self by (auto dest: js_lt_asym)
  have "c \<in> set supported"
    unfolding sup by simp
  then have "fst c \<in> set (map fst supported)"
    by simp
  then have "fst c \<in> {''9:16'', ''3:4'', ''1:1'', ''4:3'', ''16:9''}"
    unfolding supported_names by simp
  moreover have "\<exists>pre c post. supported = pre @ c # post
          \<and> getClosestAspectRatio (Some w) (Some h) = fst c
          \<and> (\<forall>p \<in> set pre. js_lt (distance ?r c) (distance ?r p))
          \<and> (\<forall>q \<in> set supported. \<not> js_lt (distance ?r q) (distance ?r c))"
    using sup res c before minimal
    by (intro exI[of _ pre] exI[of _ c] exI[of _ post]) simp
  ultimately show ?thesis
    using res c by simp
qed

text \<open>The theorem at 700 by 600 pixels, where the selector answers 4:3.\<close>

theorem getClosestAspectRatio_first_minimal_witness:
  "Num 700 \<noteq> Num 0 \<and> Num 700 \<noteq> NegZero \<and> Num 700 \<noteq> NaN \<and> js_lt (Num 0) (Num 600)
   \<and> getClosestAspectRatio (Some (Num 700)) (Some (Num 600)) = ''4:3''
   \<and> (\<exists>pre c post. supported = pre @ c # post
        \<and> getClosestAspectRatio (Some (Num 700)) (Some (Num 600)) = fst c
        \<and> (\<forall>p \<in> set pre. js_lt (distance (js_div (Num 700) (Num 600)) c)
                                 (distance (js_div (Num 700) (Num 600)) p))
        \<and> (\<forall>q \<in> set supported. \<not> js_lt (distance (js_div (Num 700) (Num 600)) q)
                                         (distance (js_div (Num 700) (Num 600)) c)))"
  using getClosestAspectRatio_first_minimal[of "Num 700" "Num 600"]
    getClosestAspectRatio_rounding(1)
  by simp

text \<open>
  Claim C1 as it is stated fails in three ways, each at a height above \<open>0\<close>.
  At width \<open>0\<close> and height \<open>1\<close> the guard \<^verbatim>\<open>!width\<close> answers 3:4, where the candidate
  nearest to the ratio \<open>0\<close> is 9:16. At 700 by 600 the exact distances of 1:1 and 4:3 to
  the ratio \<open>7/6\<close> are equal, so that the first of the two, 1:1, is the candidate of the
  claim; the program computes in doubles, finds 4:3 strictly nearer and answers 4:3. At
  a width that is NaN the guard answers 3:4, the second candidate, although its
  distance is not strictly less than that of the first.
\<close>

theorem getClosestAspectRatio_exact_counterexample:
  "js_lt (Num 0) (Num 1)
   \<and> getClosestAspectRatio (Some (Num 0)) (Some (Num 1)) = ''3:4''
   \<and> spec_selector 0 1 = ''9:16''
   \<and> js_lt (Num 0) (Num 600)
   \<and> getClosestAspectRatio (Some (Num 700)) (Some (Num 600)) = ''4:3''
   \<and> spec_selector 700 600 = ''1:1''
   \<and> \<bar>1 - 700 / 600\<bar> = \<bar>4 / 3 - 700 / (600 :: rat)\<bar>
   \<and> getClosestAspectRatio (Some NaN) (Some (Num 1)) = ''3:4''
   \<and> fst (supported ! 0) = ''9:16'' \<and> fst (supported ! 1) = ''3:4''
   \<and> \<not> js_lt (distance (js_div NaN (Num 1)) (supported ! 1))
               (distance (js_div NaN (Num 1)) (supported ! 0))"
proof -
  have "getClosestAspectRatio (Some (Num 0)) (Some (Num 1)) = ''3:4''"
    "getClosestAspectRatio (Some NaN) (Some (Num 1)) = ''3:4''"
    by (simp_all add: getClosestAspectRatio_present is_zero_def)
  moreover have "spec_selector 0 1 = ''9:16''" "spec_selector 700 600 = ''1:1''"
    by (simp_all add: spec_selector_def spec_candidates_def)
  moreover have "getClosestAspectRatio (Some (Num 700)) (Some (Num 600)) = ''4:3''"
    by (simp add: selector_eval)
  moreover have "\<not> js_lt (distance (js_div NaN (Num 1)) (supported ! 1))
               (distance (js_div NaN (Num 1)) (supported ! 0))"
    by (simp add: js_div_def distance_def js_sub_def)
  ultimately show ?thesis
    by (simp add: supported_def)
qed

text \<open>
  Claim C9. Whenever the width or the height is absent, the selector returns the fixed
  default ratio 3:4.
\<close>

theorem getClosestAspectRatio_absent:
  assumes "w = None \<or> h = None"
  shows "getClosestAspectRatio w h = ''3:4''"
  using assms by auto

theorem getClosestAspectRatio_absent_witness:
  "((None :: js_number option) = None \<or> Some (Num 1500) = None)
   \<and> getClosestAspectRatio None (Some (Num 1500)) = ''3:4''"
  using getClosestAspectRatio_absent[of None "Some (Num 1500)"] by simp

subsection \<open>Facts about the adapter's parts\<close>

text \<open>None of the adapter's own fixed messages holds the signature of a missing entity.\<close>

lemma safety_no_signature: "\<not> sublist ''Requested entity was not found'' safety_message"
  unfolding js_includes_sublist[symmetric] by (simp add: safety_message_def)

lemma empty_no_signature: "\<not> sublist ''Requested entity was not found'' empty_message"
  unfolding js_includes_sublist[symmetric] by (simp add: empty_message_def)

lemma failed_no_signature: "\<not> sublist ''Requested entity was not found'' failed_message"
  unfolding js_includes_sublist[symmetric] by (simp add: failed_message_def)

text \<open>The signature cannot begin inside the prefix put before the model's text.\<close>

lemma feedback_prefix_signature:
  "sublist ''Requested entity was not found'' (feedback_prefix @ t)
     \<longleftrightarrow> sublist ''Requested entity was not found'' t"
  unfolding js_includes_sublist[symmetric] by (simp add: feedback_prefix_def)

lemma messages_distinct:
  "safety_message \<noteq> empty_message" "failed_message \<noteq> safety_message"
  "failed_message \<noteq> empty_message"
  by (simp_all add: safety_message_def empty_message_def failed_message_def)

lemma messages_nonempty:
  "safety_message \<noteq> []" "empty_message \<noteq> []" "failed_message \<noteq> []"
  "feedback_prefix \<noteq> []"
  by (simp_all add: safety_message_def empty_message_def failed_message_def feedback_prefix_def)

text \<open>The three ways through the \<^verbatim>\<open>catch\<close> clause.\<close>

lemma catchClause_key:
  "sublist ''Requested entity was not found'' m
     \<Longrightarrow> catchClause (Error (Some m)) = Error (Some ''KEY_NOT_FOUND'')"
  by (simp add: catchClause_def js_includes_sublist)

lemma catchClause_pass:
  "\<not> sublist ''Requested entity was not found'' m \<Longrightarrow> m \<noteq> []
     \<Longrightarrow> catchClause (Error (Some m)) = Error (Some m)"
  by (simp add: catchClause_def js_includes_sublist truthy_string_def)

lemma catchClause_fallback:
  "catchClause (Error None) = Error (Some fallback_message)"
  "catchClause (Error (Some [])) = Error (Some fallback_message)"
  by (simp_all add: catchClause_def truthy_string_def)

text \<open>The two scans of the parts, on a list split at the part they stop at.\<close>

lemma firstInlineData_split:
  "\<forall>q \<in> set pre. inlineData q = None \<Longrightarrow> inlineData p = Some b
     \<Longrightarrow> firstInlineData (pre @ p # post) = Some b"
  by (induction pre) auto

lemma firstInlineData_none: "\<forall>q \<in> set ps. inlineData q = None \<Longrightarrow> firstInlineData ps = None"
  by (induction ps) auto

lemma find_split: "\<forall>q \<in> set pre. \<not> P q \<Longrightarrow> P p \<Longrightarrow> find P (pre @ p # post) = Some p"
  by (induction pre) auto

text \<open>
  Every list with a part that carries an inline payload splits at the first such part,
  and every list with a part that carries a non-empty text splits at the first such part.
\<close>

lemma first_inline_split:
  assumes "\<exists>p \<in> set ps. inlineData p \<noteq> None"
  shows "\<exists>pre part post b. ps = pre @ part # post
     \<and> (\<forall>q \<in> set pre. inlineData q = None) \<and> inlineData part = Some b"
proof -
  obtain pre part post where "ps = pre @ part # post" "inlineData part \<noteq> None"
      "\<forall>q \<in> set pre. \<not> inlineData q \<noteq> None"
    using split_list_first_prop[OF assms] by blast
  then show ?thesis by auto
qed

lemma first_text_split:
  assumes "\<exists>p \<in> set ps. truthy_string (partText p)"
  shows "\<exists>pre part post t. ps = pre @ part # post
     \<and> (\<forall>q \<in> set pre. partText q = None \<or> partText q = Some [])
     \<and> partText part = Some t \<and> t \<noteq> []"
proof -
  obtain pre part post where split: "ps = pre @ part # post" "truthy_string (partText part)"
      "\<forall>q \<in> set pre. \<not> truthy_string (partText q)"
    using split_list_first_prop[OF assms] by blast
  have "partText q = None \<or> partText q = Some []" if "q \<in> set pre" for q
    using split(3) that by (cases "partText q") (auto simp: truthy_string_def)
  moreover obtain t where "partText part = Some t" "t \<noteq> []"
    using split(2) by (cases "partText part") (auto simp: truthy_string_def)
  ultimately show ?thesis
    using split(1) by blast
qed

text \<open>When the first candidate and the list of its parts are absent.\<close>

lemma firstCandidate_None_iff:
  "firstCandidate response = None
     \<longleftrightarrow> candidates response = None \<or> candidates response = Some []"
  by (simp add: firstCandidate_def split: option.splits list.splits)

lemma contentParts_None_iff:
  "contentParts candidate = None
     \<longleftrightarrow> content candidate = None \<or> (\<exists>c. content candidate = Some c \<and> parts c = None)"
  by (simp add: contentParts_def split: option.splits)

text \<open>The resolution of a response, by whether the list of parts is there.\<close>

lemma resolveResponse_parts:
  assumes "candidates response = Some (candidate # others)"
    and "content candidate = Some c" and "parts c = Some ps"
  shows "resolveResponse response =
     (case firstInlineData ps of
        Some b \<Rightarrow> Inr (''data:image/png;base64,'' @ data b)
      | None \<Rightarrow>
         (case find (\<lambda>p. truthy_string (partText p)) ps of
            Some textPart \<Rightarrow> Inl (Error (Some (feedback_prefix @ the (partText textPart))))
          | None \<Rightarrow> Inl (Error (Some failed_message))))"
  using assms by (simp add: resolveResponse_def firstCandidate_def contentParts_def)

lemma resolveResponse_absent:
  assumes "firstCandidate response = None
     \<or> (\<exists>c. firstCandidate response = Some c \<and> contentParts c = None)"
  shows "resolveResponse response =
     Inl (Error (Some (if Option.bind (firstCandidate response) finishReason = Some ''SAFETY''
                       then safety_message else empty_message)))"
  using assms by (auto simp: resolveResponse_def)

text \<open>Every rejection of the adapter carries a message.\<close>

lemma generateSwappedPoster_rejects_with_message:
  "generateSwappedPoster ai p ps = Inl err \<Longrightarrow> message err \<noteq> None"
  by (auto simp: generateSwappedPoster_def catchClause_def
      split: call_result.splits sum.splits if_splits)

subsection \<open>The request\<close>

text \<open>
  Claim C8. For every poster and every list of \<open>N\<close> person images, the parts of the
  request are \<open>N + 2\<close> in number: part \<open>0\<close> is the poster's binary content with its MIME
  type, parts \<open>1\<close> to \<open>N\<close> are the person images' binary contents with their MIME types in
  the order of the list, and the last part, at index \<open>N + 1\<close>, is the instruction text, a
  constant that does not depend on the images.
\<close>

theorem generationRequest_parts:
  "length (contents (generationRequest posterImage personImages)) = length personImages + 2
   \<and> contents (generationRequest posterImage personImages) ! 0
       = \<lparr>inlineData = Some \<lparr>data = base64 posterImage, blobMimeType = mimeType posterImage\<rparr>,
          partText = None\<rparr>
   \<and> (\<forall>i < length personImages. contents (generationRequest posterImage personImages) ! (i + 1)
       = \<lparr>inlineData = Some \<lparr>data = base64 (personImages ! i),
                               blobMimeType = mimeType (personImages ! i)\<rparr>,
          partText = None\<rparr>)
   \<and> contents (generationRequest posterImage personImages) ! (length personImages + 1)
       = \<lparr>inlineData = None, partText = Some prompt\<rparr>"
proof -
  let ?ps = "contents (generationRequest posterImage personImages)"
  have ps: "?ps = imagePart posterImage # map imagePart personImages
      @ [\<lparr>inlineData = None, partText = Some prompt\<rparr>]"
    by (simp add: generationRequest_def requestParts_def Let_def)
  have "length ?ps = length personImages + 2"
    unfolding ps by simp
  moreover have "?ps ! 0 = imagePart posterImage"
    unfolding ps by simp
  moreover have "?ps ! (i + 1) = imagePart (personImages ! i)" if "i < length personImages" for i
    unfolding ps using that by (simp add: nth_append)
  moreover have "?ps ! (length personImages + 1) = \<lparr>inlineData = None, partText = Some prompt\<rparr>"
    unfolding ps by (simp add: nth_append)
  ultimately show ?thesis
    by (simp add: imagePart_def)
qed

theorem generationRequest_parts_witness:
  "length (contents (generationRequest scenario_poster [scenario_person1, scenario_person2])) = 4
   \<and> contents (generationRequest scenario_poster [scenario_person1, scenario_person2]) ! 0
      = \<lparr>inlineData = Some \<lparr>data = ''UE9TVEVS'', blobMimeType = ''image/jpeg''\<rparr>, partText = None\<rparr>
   \<and> contents (generationRequest scenario_poster [scenario_person1, scenario_person2]) ! 1
      = \<lparr>inlineData = Some \<lparr>data = ''QU5O'', blobMimeType = ''image/png''\<rparr>, partText = None\<rparr>
   \<and> contents (generationRequest scenario_poster [scenario_person1, scenario_person2]) ! 2
      = \<lparr>inlineData = Some \<lparr>data = ''Qk9C'', blobMimeType = ''image/webp''\<rparr>, partText = None\<rparr>
   \<and> contents (generationRequest scenario_poster [scenario_person1, scenario_person2]) ! 3
      = \<lparr>inlineData = None, partText = Some prompt\<rparr>"
proof -
  note all = generationRequest_parts[of scenario_poster "[scenario_person1, scenario_person2]"]
  note person = all[THEN conjunct2, THEN conjunct2, THEN conjunct1, rule_format]
  show ?thesis
    using all person[of 0] person[of 1]
    by (simp add: eval_nat_numeral scenario_poster_def scenario_person1_def scenario_person2_def)
qed

text \<open>The instruction text begins with the task line and has 25 lines.\<close>

lemma prompt_shape:
  "length prompt_lines = 25
   \<and> hd prompt_lines = ''TASK: HIGH-END CINEMATIC CHARACTER COMPOSITE AND CREATIVE IMAGE EDITING.''"
  by (simp add: prompt_lines_def)

subsection \<open>The resolution of a response\<close>

text \<open>
  Claim C2. For every response whose first candidate has content parts of which at least
  one carries an inline binary payload, the adapter succeeds and returns exactly the
  payload of the first such part after the prefix \<^verbatim>\<open>data:image/png;base64,\<close>: the parts
  before it carry no payload and are passed over, the parts after it, binary or text, do
  not matter.
\<close>

theorem generateSwappedPoster_first_inline_image:
  assumes "candidates response = Some (candidate # others)"
    and "content candidate = Some c"
    and "parts c = Some (pre @ part # post)"
    and "\<forall>q \<in> set pre. inlineData q = None"
    and "inlineData part = Some b"
  shows "generateSwappedPoster (\<lambda>request. Fulfilled response) posterImage personImages
     = Inr (''data:image/png;base64,'' @ data b)"
  using assms
  by (simp add: generateSwappedPoster_def resolveResponse_parts[OF assms(1-3)]
      firstInlineData_split)

theorem generateSwappedPoster_first_inline_image_witness:
  "generateSwappedPoster
     (\<lambda>request. Fulfilled (response_of
        (Some [text_part ''Here is the poster.'', image_part ''XYZ'', image_part ''ABC'',
               text_part ''Enjoy.'']) (Some ''STOP'')))
     scenario_poster [scenario_person1, scenario_person2]
   = Inr ''data:image/png;base64,XYZ''"
  using generateSwappedPoster_first_inline_image[of
      "response_of (Some [text_part ''Here is the poster.'', image_part ''XYZ'',
        image_part ''ABC'', text_part ''Enjoy.'']) (Some ''STOP'')"
      "\<lparr>content = Some \<lparr>parts = Some [text_part ''Here is the poster.'', image_part ''XYZ'',
        image_part ''ABC'', text_part ''Enjoy.'']\<rparr>, finishReason = Some ''STOP''\<rparr>" "[]"
      "\<lparr>parts = Some [text_part ''Here is the poster.'', image_part ''XYZ'',
        image_part ''ABC'', text_part ''Enjoy.'']\<rparr>"
      "[text_part ''Here is the poster.'']" "image_part ''XYZ''"
      "[image_part ''ABC'', text_part ''Enjoy.'']" "\<lparr>data = ''XYZ'', blobMimeType = ''image/png''\<rparr>"
      scenario_poster "[scenario_person1, scenario_person2]"]
  by (simp add: response_of_def text_part_def image_part_def)

text \<open>
  Claim C3, as the code has it. For every response with no first candidate, or whose
  first candidate has no list of content parts (its content, or the list of parts in
  it, is absent), the adapter fails: with the safety message exactly when the
  candidate's finish reason is \<^verbatim>\<open>SAFETY\<close>, and with the message of an empty result in
  every other such case, also when there is no candidate and so no finish reason. The
  two messages differ.
\<close>

theorem generateSwappedPoster_absent_parts:
  "(firstCandidate response = None \<longrightarrow>
       generateSwappedPoster (\<lambda>request. Fulfilled response) posterImage personImages
         = Inl (Error (Some empty_message)))
   \<and> (\<forall>candidate. firstCandidate response = Some candidate \<and> contentParts candidate = None \<longrightarrow>
       generateSwappedPoster (\<lambda>request. Fulfilled response) posterImage personImages
         = Inl (Error (Some (if finishReason candidate = Some ''SAFETY''
                             then safety_message else empty_message))))
   \<and> safety_message \<noteq> empty_message"
  by (auto simp: generateSwappedPoster_def resolveResponse_absent catchClause_pass
      safety_no_signature empty_no_signature messages_nonempty messages_distinct)

theorem generateSwappedPoster_absent_parts_witness:
  "firstCandidate \<lparr>candidates = None\<rparr> = None
   \<and> generateSwappedPoster (\<lambda>request. Fulfilled \<lparr>candidates = None\<rparr>)
        scenario_poster [scenario_person1] = Inl (Error (Some empty_message))
   \<and> firstCandidate \<lparr>candidates = Some [\<lparr>content = None, finishReason = Some ''SAFETY''\<rparr>]\<rparr>
        = Some \<lparr>content = None, finishReason = Some ''SAFETY''\<rparr>
   \<and> contentParts \<lparr>content = None, finishReason = Some ''SAFETY''\<rparr> = None
   \<and> generateSwappedPoster
        (\<lambda>request. Fulfilled \<lparr>candidates = Some [\<lparr>content = None, finishReason = Some ''SAFETY''\<rparr>]\<rparr>)
        scenario_poster [scenario_person1] = Inl (Error (Some safety_message))
   \<and> contentParts \<lparr>content = Some \<lparr>parts = None\<rparr>, finishReason = Some ''STOP''\<rparr> = None
   \<and> generateSwappedPoster
        (\<lambda>request. Fulfilled (response_of None (Some ''STOP'')))
        scenario_poster [scenario_person1] = Inl (Error (Some empty_message))"
  using generateSwappedPoster_absent_parts[of "\<lparr>candidates = None\<rparr>" scenario_poster
        "[scenario_person1]"]
    generateSwappedPoster_absent_parts[of
        "\<lparr>candidates = Some [\<lparr>content = None, finishReason = Some ''SAFETY''\<rparr>]\<rparr>"
        scenario_poster "[scenario_person1]"]
    generateSwappedPoster_absent_parts[of "response_of None (Some ''STOP'')" scenario_poster
        "[scenario_person1]"]
  by (simp add: firstCandidate_def contentParts_def response_of_def)

text \<open>
  Claim C3 as it is stated covers every first candidate that has no content parts. A
  candidate whose list of parts is there and empty has none, yet the test
  \<^verbatim>\<open>!candidate.content?.parts\<close> lets it through, since an empty array is truthy: with
  the finish reason \<^verbatim>\<open>SAFETY\<close> the adapter then fails with the message of a failed
  generation, which is neither the safety message nor the message of an empty result.
\<close>

theorem generateSwappedPoster_empty_parts_counterexample:
  "firstCandidate (response_of (Some []) (Some ''SAFETY''))
     = Some \<lparr>content = Some \<lparr>parts = Some []\<rparr>, finishReason = Some ''SAFETY''\<rparr>
   \<and> contentParts \<lparr>content = Some \<lparr>parts = Some []\<rparr>, finishReason = Some ''SAFETY''\<rparr> = Some []
   \<and> generateSwappedPoster (\<lambda>request. Fulfilled (response_of (Some []) (Some ''SAFETY'')))
        scenario_poster [scenario_person1] = Inl (Error (Some failed_message))
   \<and> failed_message \<noteq> safety_message \<and> failed_message \<noteq> empty_message"
  by (simp add: contentParts_def response_of_def generateSwappedPoster_def resolveResponse_def
      firstCandidate_def catchClause_pass failed_no_signature messages_nonempty messages_distinct)

text \<open>
  Claim C4, as the code has it. For every response whose first candidate has content
  parts, none of which carries an inline binary payload and at least one of which
  carries a non-empty text, the adapter fails, and the message of the failure is the
  fixed prefix (\<^const>\<open>feedback_prefix\<close>) followed by the exact content of the first
  non-empty text, provided that this text does not hold the signature
  \<^verbatim>\<open>Requested entity was not found\<close>.
\<close>

theorem generateSwappedPoster_text_feedback:
  assumes "candidates response = Some (candidate # others)"
    and "content candidate = Some c"
    and "parts c = Some (pre @ part # post)"
    and "\<forall>q \<in> set (pre @ part # post). inlineData q = None"
    and "\<forall>q \<in> set pre. partText q = None \<or> partText q = Some []"
    and "partText part = Some t" and "t \<noteq> []"
    and "\<not> sublist ''Requested entity was not found'' t"
  shows "generateSwappedPoster (\<lambda>request. Fulfilled response) posterImage personImages
     = Inl (Error (Some (feedback_prefix @ t)))"
proof -
  have "find (\<lambda>p. truthy_string (partText p)) (pre @ part # post) = Some part"
    using assms(5-7) by (intro find_split) (auto simp: truthy_string_def)
  then have "resolveResponse response = Inl (Error (Some (feedback_prefix @ t)))"
    using assms(4,6) firstInlineData_none[OF assms(4)]
    by (simp add: resolveResponse_parts[OF assms(1-3)])
  moreover have "catchClause (Error (Some (feedback_prefix @ t)))
      = Error (Some (feedback_prefix @ t))"
    using assms(7,8) by (intro catchClause_pass) (simp_all add: feedback_prefix_signature)
  ultimately show ?thesis
    by (simp add: generateSwappedPoster_def)
qed

theorem generateSwappedPoster_text_feedback_witness:
  "generateSwappedPoster
     (\<lambda>request. Fulfilled (response_of
        (Some [text_part [], text_part ''I cannot edit this image.'', text_part ''Sorry.''])
        (Some ''STOP'')))
     scenario_poster [scenario_person1]
   = Inl (Error (Some (feedback_prefix @ ''I cannot edit this image.'')))"
  using generateSwappedPoster_text_feedback[of
      "response_of (Some [text_part [], text_part ''I cannot edit this image.'',
        text_part ''Sorry.'']) (Some ''STOP'')"
      "\<lparr>content = Some \<lparr>parts = Some [text_part [], text_part ''I cannot edit this image.'',
        text_part ''Sorry.'']\<rparr>, finishReason = Some ''STOP''\<rparr>" "[]"
      "\<lparr>parts = Some [text_part [], text_part ''I cannot edit this image.'',
        text_part ''Sorry.'']\<rparr>"
      "[text_part []]" "text_part ''I cannot edit this image.''" "[text_part ''Sorry.'']"
      "''I cannot edit this image.''" scenario_poster "[scenario_person1]"]
  by (simp add: response_of_def text_part_def js_includes_sublist[symmetric])

text \<open>
  Claim C4 as it is stated has the text surfaced verbatim, with no prefix. For a response
  whose only part is the text \<^verbatim>\<open>I cannot edit this image.\<close> the message of the failure
  is that text after the prefix, which is not the text itself.
\<close>

theorem generateSwappedPoster_text_feedback_counterexample:
  "generateSwappedPoster
     (\<lambda>request. Fulfilled (response_of (Some [text_part ''I cannot edit this image.''])
        (Some ''STOP'')))
     scenario_poster [scenario_person1]
   = Inl (Error (Some (feedback_prefix @ ''I cannot edit this image.'')))
   \<and> feedback_prefix @ ''I cannot edit this image.'' \<noteq> ''I cannot edit this image.''"
proof -
  have "\<not> sublist ''Requested entity was not found'' ''I cannot edit this image.''"
    by (simp add: js_includes_sublist[symmetric])
  then have "catchClause (Error (Some (feedback_prefix @ ''I cannot edit this image.'')))
      = Error (Some (feedback_prefix @ ''I cannot edit this image.''))"
    by (intro catchClause_pass) (simp_all add: feedback_prefix_signature)
  then show ?thesis
    by (simp add: response_of_def text_part_def generateSwappedPoster_def resolveResponse_def
      firstCandidate_def contentParts_def truthy_string_def messages_nonempty)
qed

text \<open>
  Claim C10. The \<^verbatim>\<open>catch\<close> clause also catches what the resolution itself throws. So for
  every response with no inline binary part whose first non-empty text holds the
  signature \<^verbatim>\<open>Requested entity was not found\<close>, the adapter rejects with
  \<^verbatim>\<open>KEY_NOT_FOUND\<close>, and not with the message that carries the text.
\<close>

theorem generateSwappedPoster_feedback_reclassified:
  assumes "candidates response = Some (candidate # others)"
    and "content candidate = Some c"
    and "parts c = Some (pre @ part # post)"
    and "\<forall>q \<in> set (pre @ part # post). inlineData q = None"
    and "\<forall>q \<in> set pre. partText q = None \<or> partText q = Some []"
    and "partText part = Some (before @ ''Requested entity was not found'' @ after)"
  shows "generateSwappedPoster (\<lambda>request. Fulfilled response) posterImage personImages
     = Inl (Error (Some ''KEY_NOT_FOUND''))"
proof -
  let ?t = "before @ ''Requested entity was not found'' @ after"
  have "find (\<lambda>p. truthy_string (partText p)) (pre @ part # post) = Some part"
    using assms(5,6) by (intro find_split) (auto simp: truthy_string_def)
  then have "resolveResponse response = Inl (Error (Some (feedback_prefix @ ?t)))"
    using assms(6) firstInlineData_none[OF assms(4)]
    by (simp add: resolveResponse_parts[OF assms(1-3)])
  moreover have "sublist ''Requested entity was not found'' ?t"
    unfolding sublist_def by blast
  then have "catchClause (Error (Some (feedback_prefix @ ?t))) = Error (Some ''KEY_NOT_FOUND'')"
    by (intro catchClause_key) (simp add: feedback_prefix_signature)
  ultimately show ?thesis
    by (simp add: generateSwappedPoster_def)
qed

theorem generateSwappedPoster_feedback_reclassified_witness:
  "generateSwappedPoster
     (\<lambda>request. Fulfilled (response_of
        (Some [text_part ''Error: Requested entity was not found. Try again.'']) (Some ''STOP'')))
     scenario_poster [scenario_person1]
   = Inl (Error (Some ''KEY_NOT_FOUND''))"
  using generateSwappedPoster_feedback_reclassified[of
      "response_of (Some [text_part ''Error: Requested entity was not found. Try again.''])
        (Some ''STOP'')"
      "\<lparr>content = Some \<lparr>parts = Some [text_part ''Error: Requested entity was not found. Try again.'']\<rparr>,
        finishReason = Some ''STOP''\<rparr>" "[]"
      "\<lparr>parts = Some [text_part ''Error: Requested entity was not found. Try again.'']\<rparr>"
      "[]" "text_part ''Error: Requested entity was not found. Try again.''" "[]"
      "''Error: ''" "''. Try again.''" scenario_poster "[scenario_person1]"]
  by (simp add: response_of_def text_part_def)

subsection \<open>Errors of the remote call\<close>

text \<open>
  Claim C5. For every error of the remote call whose message holds the signature
  \<^verbatim>\<open>Requested entity was not found\<close>, whatever stands before and after it, the adapter
  rejects with the fixed message \<^verbatim>\<open>KEY_NOT_FOUND\<close>. For every other error it rejects with
  the error's own message, and with the fixed fallback message when the error has no
  message or an empty one.
\<close>

theorem generateSwappedPoster_transport_error:
  "generateSwappedPoster
      (\<lambda>request. Rejected (Error (Some (before @ ''Requested entity was not found'' @ after))))
      posterImage personImages
     = Inl (Error (Some ''KEY_NOT_FOUND''))
   \<and> (m \<noteq> [] \<and> \<not> sublist ''Requested entity was not found'' m \<longrightarrow>
        generateSwappedPoster (\<lambda>request. Rejected (Error (Some m))) posterImage personImages
          = Inl (Error (Some m)))
   \<and> generateSwappedPoster (\<lambda>request. Rejected (Error None)) posterImage personImages
        = Inl (Error (Some fallback_message))
   \<and> generateSwappedPoster (\<lambda>request. Rejected (Error (Some []))) posterImage personImages
        = Inl (Error (Some fallback_message))"
proof -
  have "sublist ''Requested entity was not found''
      (before @ ''Requested entity was not found'' @ after)"
    unfolding sublist_def by blast
  then show ?thesis
    by (simp add: generateSwappedPoster_def catchClause_key catchClause_pass catchClause_fallback)
qed

theorem generateSwappedPoster_transport_error_witness:
  "generateSwappedPoster
     (\<lambda>request. Rejected (Error (Some ''404 Requested entity was not found. (quota exceeded)'')))
     scenario_poster [scenario_person1] = Inl (Error (Some ''KEY_NOT_FOUND''))
   \<and> generateSwappedPoster (\<lambda>request. Rejected (Error (Some ''Failed to fetch'')))
     scenario_poster [scenario_person1] = Inl (Error (Some ''Failed to fetch''))
   \<and> generateSwappedPoster (\<lambda>request. Rejected (Error None))
     scenario_poster [scenario_person1] = Inl (Error (Some fallback_message))"
  using generateSwappedPoster_transport_error[of "''404 ''" "''. (quota exceeded)''"
      scenario_poster "[scenario_person1]" "''Failed to fetch''"]
  by (simp add: js_includes_sublist[symmetric])

subsection \<open>The orchestration\<close>

text \<open>
  When the three preconditions hold, the adapter is invoked once, with the poster and
  the persons.
\<close>

lemma handleProcess_invokes:
  assumes "hasKey app" and "poster (state app) = Some thePoster"
    and "people (state app) \<noteq> []"
  shows "invocations (handleProcess ai app) = invocations app @ [(thePoster, people (state app))]"
  using assms by (simp add: handleProcess_def Let_def split: sum.splits)

text \<open>A success shows the result and leaves the key selected.\<close>

lemma handleProcess_success:
  assumes "hasKey app" and "poster (state app) = Some thePoster"
    and "people (state app) \<noteq> []"
    and "generateSwappedPoster ai thePoster (people (state app)) = Inr dataUrl"
  shows "handleProcess ai app =
     app\<lparr>state := (state app)\<lparr>isProcessing := False, error := None, result := Some dataUrl\<rparr>,
         invocations := invocations app @ [(thePoster, people (state app))]\<rparr>"
  using assms by (simp add: handleProcess_def Let_def)

text \<open>
  Claim C6. Whenever the invocation of the adapter fails with the message
  \<^verbatim>\<open>KEY_NOT_FOUND\<close>, the handler resets the flag of the selected credential to false,
  clears the processing flag and shows the message of an invalid or expired key. A
  failure with any other message leaves the credential flag set; it clears the processing
  flag and shows the failure's own message.
\<close>

theorem handleProcess_key_not_found:
  assumes "hasKey app" and "poster (state app) = Some thePoster"
    and "people (state app) \<noteq> []"
    and "generateSwappedPoster ai thePoster (people (state app)) = Inl err"
  shows "(message err = Some ''KEY_NOT_FOUND'' \<longrightarrow>
            \<not> hasKey (handleProcess ai app)
          \<and> \<not> isProcessing (state (handleProcess ai app))
          \<and> error (state (handleProcess ai app)) = Some key_invalid_message)
       \<and> (message err \<noteq> Some ''KEY_NOT_FOUND'' \<longrightarrow>
            hasKey (handleProcess ai app)
          \<and> \<not> isProcessing (state (handleProcess ai app))
          \<and> error (state (handleProcess ai app)) = message err)"
  using assms by (simp add: handleProcess_def Let_def)

theorem handleProcess_key_not_found_witness:
  "hasKey scenario_app
   \<and> poster (state scenario_app) = Some scenario_poster
   \<and> people (state scenario_app) \<noteq> []
   \<and> \<not> hasKey (handleProcess
        (\<lambda>request. Rejected (Error (Some ''Requested entity was not found.''))) scenario_app)
   \<and> \<not> isProcessing (state (handleProcess
        (\<lambda>request. Rejected (Error (Some ''Requested entity was not found.''))) scenario_app))
   \<and> error (state (handleProcess
        (\<lambda>request. Rejected (Error (Some ''Requested entity was not found.''))) scenario_app))
       = Some key_invalid_message
   \<and> hasKey (handleProcess (\<lambda>request. Rejected (Error (Some ''Failed to fetch''))) scenario_app)
   \<and> \<not> isProcessing (state (handleProcess
        (\<lambda>request. Rejected (Error (Some ''Failed to fetch''))) scenario_app))
   \<and> error (state (handleProcess
        (\<lambda>request. Rejected (Error (Some ''Failed to fetch''))) scenario_app))
       = Some ''Failed to fetch''"
proof -
  have pre: "hasKey scenario_app" "poster (state scenario_app) = Some scenario_poster"
    "people (state scenario_app) \<noteq> []"
    by (simp_all add: scenario_app_def)
  have key: "generateSwappedPoster
       (\<lambda>request. Rejected (Error (Some ''Requested entity was not found.'')))
       scenario_poster (people (state scenario_app)) = Inl (Error (Some ''KEY_NOT_FOUND''))"
    by (simp add: generateSwappedPoster_def catchClause_def)
  have other: "generateSwappedPoster (\<lambda>request. Rejected (Error (Some ''Failed to fetch'')))
       scenario_poster (people (state scenario_app)) = Inl (Error (Some ''Failed to fetch''))"
    by (simp add: generateSwappedPoster_def catchClause_def truthy_string_def)
  show ?thesis
    using pre handleProcess_key_not_found[OF pre key] handleProcess_key_not_found[OF pre other]
    by simp
qed

text \<open>
  Claim C7. For every session that violates a precondition of the generation (no
  credential selected, or no poster, or an empty list of persons), the handler only sets
  the error message of the precondition that fails first; everything else in the session
  stays as it was, whatever the remote service would answer, and the adapter is not
  invoked.
\<close>

theorem handleProcess_precondition:
  assumes "\<not> hasKey app \<or> poster (state app) = None \<or> people (state app) = []"
  shows "handleProcess ai app =
      app\<lparr>state := (state app)\<lparr>error := Some
        (if \<not> hasKey app then needs_key_message
         else if poster (state app) = None then needs_poster_message
         else needs_person_message)\<rparr>\<rparr>
    \<and> invocations (handleProcess ai app) = invocations app"
  using assms by (auto simp: handleProcess_def split: option.splits)

theorem handleProcess_precondition_witness:
  "poster (state (scenario_app\<lparr>state := (state scenario_app)\<lparr>poster := None\<rparr>\<rparr>)) = None
   \<and> handleProcess (\<lambda>request. Fulfilled (response_of (Some [image_part ''XYZ'']) None))
        (scenario_app\<lparr>state := (state scenario_app)\<lparr>poster := None\<rparr>\<rparr>)
      = scenario_app\<lparr>state := (state scenario_app)
          \<lparr>poster := None, error := Some needs_poster_message\<rparr>\<rparr>
   \<and> invocations (handleProcess (\<lambda>request. Fulfilled (response_of (Some [image_part ''XYZ'']) None))
        (scenario_app\<lparr>state := (state scenario_app)\<lparr>poster := None\<rparr>\<rparr>)) = []"
  using handleProcess_precondition[of "scenario_app\<lparr>state := (state scenario_app)\<lparr>poster := None\<rparr>\<rparr>"
      "\<lambda>request. Fulfilled (response_of (Some [image_part ''XYZ'']) None)"]
  by (simp add: scenario_app_def)

text \<open>
  Scenario A from end to end: the poster of 1000 by 1500 pixels, two persons, a key, and
  a response whose only part is the binary data \<^verbatim>\<open>XYZ\<close>. The request asks for the ratio
  3:4 and the session ends with the image built from \<^verbatim>\<open>XYZ\<close>.
\<close>

lemma scenario_A:
  "handleProcess (\<lambda>request. Fulfilled (response_of (Some [image_part ''XYZ'']) None)) scenario_app
     = scenario_app\<lparr>state := (state scenario_app)\<lparr>result := Some ''data:image/png;base64,XYZ''\<rparr>,
         invocations := [(scenario_poster, [scenario_person1, scenario_person2])]\<rparr>
   \<and> aspectRatio (imageConfig (generationRequest scenario_poster
        [scenario_person1, scenario_person2])) = ''3:4''"
  by (simp add: handleProcess_def scenario_app_def generateSwappedPoster_def resolveResponse_def
      firstCandidate_def contentParts_def response_of_def image_part_def generationRequest_def
      scenario_poster_def getClosestAspectRatio_scenario_A)

end
